theory Spec2Isabelle
  imports Complex_Main
begin

section \<open>Data model of the glucose analytics server\<close>

text \<open>
  The embedding follows \<^verbatim>\<open>src/mcp_server_dexcom/server.py\<close>.

  Python floats are modelled by exact reals: \<^verbatim>\<open>a / b\<close> is real division and
  \<^verbatim>\<open>round(x, 1)\<close> is rounding to the nearest tenth, ties to the even tenth. Binary
  floating point can differ from this model in the direction chosen at an exact tie
  and nowhere else for the magnitudes that occur; no theorem below depends on the
  direction of a tie.

  A \<^verbatim>\<open>datetime\<close> is a value of Python's library. It is modelled by what the server
  observes of it: the instant it denotes (the sort key and the operand of
  subtraction, in microseconds), whether it carries a time zone (comparing or
  subtracting an aware and a naive datetime raises \<^verbatim>\<open>TypeError\<close>), its \<^verbatim>\<open>hour\<close>
  attribute (always below 24 in Python) and the text \<^verbatim>\<open>isoformat()\<close> returns.

  The exceptions are those the statements of the server can raise, and
  \<open>ValidationError\<close>, the class the specification names for a malformed batch.
\<close>

datatype error = KeyError string | ValueError | TypeError | IndexError | ValidationError

record datetime =
  dt_usec :: int
  dt_aware :: bool
  dt_hour :: nat
  dt_iso :: string

text \<open>
  A reading object. Readings of the acquisition client carry \<^verbatim>\<open>mmol_l\<close>,
  \<^verbatim>\<open>trend_direction\<close> and \<^verbatim>\<open>trend_arrow\<close>; an \<^verbatim>\<open>ExternalReading\<close> has only
  \<^verbatim>\<open>value\<close> and \<^verbatim>\<open>datetime\<close>, so the three attributes are optional and
  \<^verbatim>\<open>getattr(r, name, default)\<close> is a case distinction on them.
\<close>

record reading =
  r_value :: int
  r_datetime :: datetime
  r_mmol_l :: "real option"
  r_trend_direction :: "string option"
  r_trend_arrow :: "string option"

text \<open>
  One element of the \<^verbatim>\<open>data\<close> argument, a dict with the documented schema
  \<^verbatim>\<open>{"glucose_mg_dl": int, "timestamp": "ISO-8601"}\<close>. Either key may be missing;
  a key that is present holds a value of the documented type.
\<close>

record ext_record =
  glucose_mg_dl :: "int option"
  timestamp :: "string option"

text \<open>
  What a call can depend on besides its arguments: the acquisition client
  (\<^verbatim>\<open>get_dexcom_client().get_glucose_readings(minutes, max_count)\<close>, which may raise),
  the clock (\<^verbatim>\<open>datetime.now()\<close>), and the library functions
  \<^verbatim>\<open>datetime.fromisoformat\<close> (\<open>None\<close> where it raises \<^verbatim>\<open>ValueError\<close>) and the
  \<^verbatim>\<open>str\<close> of a float and of an int, which are taken as given.
\<close>

record runtime =
  client :: "int \<Rightarrow> int \<Rightarrow> error + reading list"
  now :: datetime
  fromisoformat :: "string \<Rightarrow> datetime option"
  float_str :: "real \<Rightarrow> string"
  int_str :: "int \<Rightarrow> string"

text \<open>
  The result of a tool call: the list of acquisition calls it made, as
  \<open>(minutes, max_count)\<close> pairs in order, and either the exception that ended it or
  the dict it returned.
\<close>

type_synonym 'a call = "(int \<times> int) list \<times> (error + 'a)"

datatype 'a report = No_data string | Report 'a

section \<open>Numeric helpers\<close>

definition round_half_even :: "real \<Rightarrow> int" where
  "round_half_even y =
     (let f = \<lfloor>y\<rfloor>; d = y - of_int f
      in if d < 1 / 2 then f else if 1 / 2 < d then f + 1
         else if even f then f else f + 1)"

definition py_round1 :: "real \<Rightarrow> real" where
  \<comment> \<open>\<^verbatim>\<open>round(x, 1)\<close>\<close>
  "py_round1 x = of_int (round_half_even (x * 10)) / 10"

definition py_int :: "real \<Rightarrow> int" where
  \<comment> \<open>\<^verbatim>\<open>int(x)\<close> of a float: truncation towards zero\<close>
  "py_int x = (if 0 \<le> x then \<lfloor>x\<rfloor> else \<lceil>x\<rceil>)"

definition count_if :: "('a \<Rightarrow> bool) \<Rightarrow> 'a list \<Rightarrow> nat" where
  \<comment> \<open>\<^verbatim>\<open>sum(1 for v in values if P(v))\<close>\<close>
  "count_if P values = sum_list (map (\<lambda>v. 1) (filter P values))"

definition percent :: "nat \<Rightarrow> nat \<Rightarrow> real" where
  \<comment> \<open>\<^verbatim>\<open>round(count / total * 100, 1)\<close>\<close>
  "percent cnt tot = py_round1 (real cnt / real tot * 100)"

definition mean :: "int list \<Rightarrow> real" where
  "mean values = real_of_int (sum_list values) / real (length values)"

definition stdev :: "int list \<Rightarrow> real" where
  \<comment> \<open>\<^verbatim>\<open>statistics.stdev\<close>: the sample standard deviation\<close>
  "stdev values =
     sqrt (sum_list (map (\<lambda>v. (real_of_int v - mean values)\<^sup>2) values)
           / real (length values - 1))"

section \<open>Normalising an external batch\<close>

definition replace_Z :: "string \<Rightarrow> string" where
  \<comment> \<open>\<^verbatim>\<open>timestamp.replace('Z', '+00:00')\<close>\<close>
  "replace_Z s = concat (map (\<lambda>c. if c = CHR ''Z'' then ''+00:00'' else [c]) s)"

definition ExternalReading :: "runtime \<Rightarrow> int \<Rightarrow> string \<Rightarrow> error + reading" where
  "ExternalReading rt glucose ts =
     (case fromisoformat rt (replace_Z ts) of
        None \<Rightarrow> Inl ValueError
      | Some dt \<Rightarrow> Inr \<lparr>r_value = glucose, r_datetime = dt, r_mmol_l = None,
                        r_trend_direction = None, r_trend_arrow = None\<rparr>)"

definition parse_record :: "runtime \<Rightarrow> ext_record \<Rightarrow> error + reading" where
  \<comment> \<open>\<^verbatim>\<open>ExternalReading(d["glucose_mg_dl"], d["timestamp"])\<close>, arguments left to right\<close>
  "parse_record rt d =
     (case glucose_mg_dl d of
        None \<Rightarrow> Inl (KeyError ''glucose_mg_dl'')
      | Some g \<Rightarrow>
          (case timestamp d of
             None \<Rightarrow> Inl (KeyError ''timestamp'')
           | Some ts \<Rightarrow> ExternalReading rt g ts))"

fun parse_external_data :: "runtime \<Rightarrow> ext_record list \<Rightarrow> error + reading list" where
  "parse_external_data rt [] = Inr []"
| "parse_external_data rt (d # ds) =
     (case parse_record rt d of
        Inl e \<Rightarrow> Inl e
      | Inr r \<Rightarrow>
          (case parse_external_data rt ds of
             Inl e \<Rightarrow> Inl e
           | Inr rs \<Rightarrow> Inr (r # rs)))"

definition truthy :: "'a list option \<Rightarrow> bool" where
  \<comment> \<open>\<^verbatim>\<open>if data:\<close> holds for a list that is present and not empty\<close>
  "truthy data = (case data of Some (d # ds) \<Rightarrow> True | _ \<Rightarrow> False)"

definition clamp_minutes :: "int \<Rightarrow> int" where
  "clamp_minutes minutes = max 1 (min 1440 minutes)"

definition fetch_or_parse ::
  "runtime \<Rightarrow> int \<Rightarrow> ext_record list option \<Rightarrow> reading list call" where
  \<comment> \<open>the block that opens every tool but \<^verbatim>\<open>get_glucose_readings\<close>:
      \<^verbatim>\<open>if data: readings = parse_external_data(data)\<close>, else clamp \<^verbatim>\<open>minutes\<close> and ask
      the client for at most 288 readings\<close>
  "fetch_or_parse rt minutes data =
     (if truthy data then ([], parse_external_data rt (the data))
      else ([(clamp_minutes minutes, 288)], client rt (clamp_minutes minutes) 288))"

definition effective_minutes :: "int \<Rightarrow> ext_record list option \<Rightarrow> int" where
  \<comment> \<open>the value of the variable \<^verbatim>\<open>minutes\<close> after that block: rebound in the
      \<^verbatim>\<open>else\<close> branch only\<close>
  "effective_minutes minutes data =
     (if truthy data then minutes else clamp_minutes minutes)"

definition on_readings :: "reading list call \<Rightarrow> (reading list \<Rightarrow> error + 'a) \<Rightarrow> 'a call" where
  \<comment> \<open>an exception of the opening block ends the call; otherwise the body runs\<close>
  "on_readings acquired body =
     (case snd acquired of
        Inl e \<Rightarrow> (fst acquired, Inl e)
      | Inr readings \<Rightarrow> (fst acquired, body readings))"

section \<open>Sorting and slicing\<close>

definition comparable :: "datetime list \<Rightarrow> bool" where
  \<comment> \<open>all aware or all naive: the lists \<^verbatim>\<open>sorted\<close> can order without \<^verbatim>\<open>TypeError\<close>\<close>
  "comparable dts = (list_all dt_aware dts \<or> list_all (\<lambda>d. \<not> dt_aware d) dts)"

definition sorted_by :: "('a \<Rightarrow> datetime) \<Rightarrow> bool \<Rightarrow> 'a list \<Rightarrow> error + 'a list" where
  \<comment> \<open>\<^verbatim>\<open>sorted(xs, key=..., reverse=...)\<close> with a datetime key; Python's sort is
      stable, also with \<^verbatim>\<open>reverse=True\<close>\<close>
  "sorted_by key reverse xs =
     (if comparable (map key xs)
      then Inr (if reverse then sort_key (\<lambda>x. - dt_usec (key x)) xs
                else sort_key (\<lambda>x. dt_usec (key x)) xs)
      else Inl TypeError)"

definition slice_to :: "int \<Rightarrow> 'a list \<Rightarrow> 'a list" where
  \<comment> \<open>\<^verbatim>\<open>xs[:n]\<close>: a negative \<^verbatim>\<open>n\<close> counts from the end\<close>
  "slice_to n xs =
     (if 0 \<le> n then take (nat n) xs else take (nat (int (length xs) + n)) xs)"

section \<open>\<^verbatim>\<open>get_glucose_readings\<close>\<close>

record reading_out =
  o_glucose_mg_dl :: int
  o_glucose_mmol_l :: real
  o_trend :: "string option"
  o_trend_arrow :: "string option"
  o_timestamp :: string

definition render_reading :: "reading \<Rightarrow> reading_out" where
  "render_reading r =
     \<lparr>o_glucose_mg_dl = r_value r,
      o_glucose_mmol_l =
        (case r_mmol_l r of Some m \<Rightarrow> m
         | None \<Rightarrow> py_round1 (real_of_int (r_value r) / 18)),
      o_trend = r_trend_direction r,
      o_trend_arrow = r_trend_arrow r,
      o_timestamp = dt_iso (r_datetime r)\<rparr>"

datatype readings_result =
  Readings_no_data string "reading_out list"
| Readings_found nat "reading_out list"

definition select_readings ::
  "runtime \<Rightarrow> int \<Rightarrow> int \<Rightarrow> ext_record list option \<Rightarrow> reading list call" where
  \<comment> \<open>lines 80-88\<close>
  "select_readings rt minutes max_count data =
     (if truthy data then
        ([], case parse_external_data rt (the data) of
               Inl e \<Rightarrow> Inl e
             | Inr readings \<Rightarrow>
                 (case sorted_by r_datetime True readings of
                    Inl e \<Rightarrow> Inl e
                  | Inr s \<Rightarrow> Inr (slice_to max_count s)))
      else
        (let minutes = max 1 (min 1440 minutes);
             max_count = max 1 (min 288 max_count)
         in ([(minutes, max_count)], client rt minutes max_count)))"

definition get_glucose_readings ::
  "runtime \<Rightarrow> int \<Rightarrow> int \<Rightarrow> ext_record list option \<Rightarrow> readings_result call" where
  "get_glucose_readings rt minutes max_count data =
     on_readings (select_readings rt minutes max_count data)
       (\<lambda>readings.
          if readings = [] then Inr (Readings_no_data ''No readings found'' [])
          else Inr (Readings_found (length readings) (map render_reading readings)))"

section \<open>\<^verbatim>\<open>get_statistics\<close>\<close>

record statistics =
  st_reading_count :: nat
  st_mean_mg_dl :: real
  st_mean_mmol_l :: real
  st_std_dev :: real
  st_cv_percent :: real
  st_min_mg_dl :: int
  st_max_mg_dl :: int
  st_time_in_range_percent :: real
  st_time_below_percent :: real
  st_time_above_percent :: real
  st_time_very_low_percent :: real
  st_time_very_high_percent :: real
  st_thresholds :: "int \<times> int"

definition statistics_of :: "reading list \<Rightarrow> int \<Rightarrow> int \<Rightarrow> statistics" where
  \<comment> \<open>lines 140-167\<close>
  "statistics_of readings low high =
     (let values = map r_value readings;
          avg = mean values;
          sd = (if length values > 1 then stdev values else 0);
          cv = (if avg > 0 then sd / avg * 100 else 0);
          tot = length values;
          in_range = count_if (\<lambda>v. low \<le> v \<and> v \<le> high) values;
          below = count_if (\<lambda>v. v < low) values;
          above = count_if (\<lambda>v. v > high) values;
          very_low = count_if (\<lambda>v. v < 54) values;
          very_high = count_if (\<lambda>v. v > 250) values
      in \<lparr>st_reading_count = tot,
          st_mean_mg_dl = py_round1 avg,
          st_mean_mmol_l = py_round1 (avg / 18),
          st_std_dev = py_round1 sd,
          st_cv_percent = py_round1 cv,
          st_min_mg_dl = Min (set values),
          st_max_mg_dl = Max (set values),
          st_time_in_range_percent = percent in_range tot,
          st_time_below_percent = percent below tot,
          st_time_above_percent = percent above tot,
          st_time_very_low_percent = percent very_low tot,
          st_time_very_high_percent = percent very_high tot,
          st_thresholds = (low, high)\<rparr>)"

definition get_statistics ::
  "runtime \<Rightarrow> int \<Rightarrow> int \<Rightarrow> int \<Rightarrow> ext_record list option \<Rightarrow> statistics report call" where
  "get_statistics rt minutes low high data =
     on_readings (fetch_or_parse rt minutes data)
       (\<lambda>readings.
          if readings = [] then Inr (No_data ''No readings found'')
          else Inr (Report (statistics_of readings low high)))"

section \<open>\<^verbatim>\<open>detect_episodes\<close>\<close>

datatype episode_type = Very_low | Low | Very_high | High

record episode =
  ep_type :: episode_type
  ep_start :: datetime
  ep_end :: datetime
  ep_values :: "int list"
  ep_ongoing :: bool

definition classify :: "int \<Rightarrow> int \<Rightarrow> int \<Rightarrow> episode_type option" where
  \<comment> \<open>lines 324-333\<close>
  "classify low high v =
     (if v < 54 then Some Very_low
      else if v < low then Some Low
      else if v > 250 then Some Very_high
      else if v > high then Some High
      else None)"

definition is_low_type :: "episode_type \<Rightarrow> bool" where
  \<comment> \<open>\<^verbatim>\<open>episode_type in ("low", "very_low")\<close>\<close>
  "is_low_type t = (t = Low \<or> t = Very_low)"

definition is_severe :: "episode_type \<Rightarrow> bool" where
  \<comment> \<open>\<^verbatim>\<open>episode_type in ("very_low", "very_high")\<close>\<close>
  "is_severe t = (t = Very_low \<or> t = Very_high)"

definition new_episode :: "episode_type \<Rightarrow> reading \<Rightarrow> episode" where
  "new_episode t reading =
     \<lparr>ep_type = t, ep_start = r_datetime reading, ep_end = r_datetime reading,
      ep_values = [r_value reading], ep_ongoing = False\<rparr>"

definition detect_step ::
  "int \<Rightarrow> int \<Rightarrow> episode list \<times> episode option \<Rightarrow> reading \<Rightarrow> episode list \<times> episode option"
where
  \<comment> \<open>the body of the loop, lines 322-356, on the pair
      \<^verbatim>\<open>(episodes, current_episode)\<close>\<close>
  "detect_step low high st reading =
     (let episodes = fst st; current_episode = snd st; v = r_value reading
      in case classify low high v of
           Some t \<Rightarrow>
             (case current_episode of
                Some cur \<Rightarrow>
                  if is_low_type t = is_low_type (ep_type cur)
                  then (episodes,
                        Some (cur\<lparr>ep_end := r_datetime reading,
                                  ep_values := ep_values cur @ [v],
                                  ep_type := (if is_severe t then t else ep_type cur)\<rparr>))
                  else (episodes @ [cur], Some (new_episode t reading))
              | None \<Rightarrow> (episodes, Some (new_episode t reading)))
         | None \<Rightarrow>
             (case current_episode of
                Some cur \<Rightarrow> (episodes @ [cur], None)
              | None \<Rightarrow> (episodes, None)))"

fun detect_loop ::
  "int \<Rightarrow> int \<Rightarrow> reading list \<Rightarrow> episode list \<times> episode option \<Rightarrow> episode list \<times> episode option"
where
  "detect_loop low high [] st = st"
| "detect_loop low high (reading # rest) st =
     detect_loop low high rest (detect_step low high st reading)"

definition close_ongoing :: "episode list \<times> episode option \<Rightarrow> episode list" where
  \<comment> \<open>lines 358-360\<close>
  "close_ongoing st =
     (case snd st of
        Some cur \<Rightarrow> fst st @ [cur\<lparr>ep_ongoing := True\<rparr>]
      | None \<Rightarrow> fst st)"

definition segment_episodes :: "int \<Rightarrow> int \<Rightarrow> reading list \<Rightarrow> episode list" where
  \<comment> \<open>lines 318-360 on the sorted readings\<close>
  "segment_episodes low high sorted_readings =
     close_ongoing (detect_loop low high sorted_readings ([], None))"

record episode_out =
  eo_type :: episode_type
  eo_start :: string
  eo_end :: string
  eo_duration_minutes :: int
  eo_extreme_value :: int
  eo_mean_value :: real
  eo_ongoing :: bool

definition minutes_between :: "datetime \<Rightarrow> datetime \<Rightarrow> real" where
  \<comment> \<open>\<^verbatim>\<open>(b - a).total_seconds() / 60\<close>\<close>
  "minutes_between a b = real_of_int (dt_usec b - dt_usec a) / 1000000 / 60"

definition format_episode :: "episode \<Rightarrow> episode_out" where
  \<comment> \<open>lines 363-376\<close>
  "format_episode ep =
     (let duration = py_int (minutes_between (ep_start ep) (ep_end ep));
          values = ep_values ep;
          extreme = (if is_low_type (ep_type ep) then Min (set values) else Max (set values))
      in \<lparr>eo_type = ep_type ep,
          eo_start = dt_iso (ep_start ep),
          eo_end = dt_iso (ep_end ep),
          eo_duration_minutes = max duration 5,
          eo_extreme_value = extreme,
          eo_mean_value = py_round1 (real_of_int (sum_list values) / real (length values)),
          eo_ongoing = ep_ongoing ep\<rparr>)"

record episode_summary =
  es_total_episodes :: nat
  es_low_episodes :: nat
  es_high_episodes :: nat
  es_total_low_minutes :: int
  es_total_high_minutes :: int
  es_severe_lows :: nat
  es_severe_highs :: nat

record episodes_report =
  er_readings_analyzed :: nat
  er_episodes :: "episode_out list"
  er_summary :: episode_summary

definition is_high_type :: "episode_type \<Rightarrow> bool" where
  \<comment> \<open>\<^verbatim>\<open>e["type"] in ("high", "very_high")\<close>\<close>
  "is_high_type t = (t = High \<or> t = Very_high)"

definition episodes_report_of :: "int \<Rightarrow> int \<Rightarrow> reading list \<Rightarrow> episodes_report" where
  \<comment> \<open>lines 318-393 on the sorted readings\<close>
  "episodes_report_of low high sorted_readings =
     (let formatted = map format_episode (segment_episodes low high sorted_readings);
          low_eps = filter (\<lambda>e. is_low_type (eo_type e)) formatted;
          high_eps = filter (\<lambda>e. is_high_type (eo_type e)) formatted
      in \<lparr>er_readings_analyzed = length sorted_readings,
          er_episodes = formatted,
          er_summary =
            \<lparr>es_total_episodes = length formatted,
             es_low_episodes = length low_eps,
             es_high_episodes = length high_eps,
             es_total_low_minutes = sum_list (map eo_duration_minutes low_eps),
             es_total_high_minutes = sum_list (map eo_duration_minutes high_eps),
             es_severe_lows = count_if (\<lambda>e. eo_type e = Very_low) low_eps,
             es_severe_highs = count_if (\<lambda>e. eo_type e = Very_high) high_eps\<rparr>\<rparr>)"

definition detect_episodes ::
  "runtime \<Rightarrow> int \<Rightarrow> int \<Rightarrow> int \<Rightarrow> ext_record list option \<Rightarrow> episodes_report report call"
where
  "detect_episodes rt minutes low high data =
     on_readings (fetch_or_parse rt minutes data)
       (\<lambda>readings.
          if readings = [] then Inr (No_data ''No readings available'')
          else (case sorted_by r_datetime False readings of
                  Inl e \<Rightarrow> Inl e
                | Inr sorted_readings \<Rightarrow>
                    Inr (Report (episodes_report_of low high sorted_readings))))"

section \<open>\<^verbatim>\<open>get_episode_details\<close>\<close>

type_synonym point = "int \<times> datetime"

record found_episode =
  fe_type :: episode_type
  fe_start_idx :: nat
  fe_end_idx :: nat
  fe_values :: "point list"
  fe_is_low :: bool

function scan_run ::
  "point list \<Rightarrow> int \<Rightarrow> int \<Rightarrow> bool \<Rightarrow> nat \<Rightarrow> episode_type \<Rightarrow> point list
   \<Rightarrow> nat \<times> episode_type \<times> point list"
where
  \<comment> \<open>the inner \<^verbatim>\<open>while\<close>, lines 442-455, on \<^verbatim>\<open>(i, ep_type, episode_values)\<close>\<close>
  "scan_run points low high is_low_episode i ept episode_values =
     (if i < length points then
        (let v = fst (points ! i); in_low = v < low; in_high = v > high
         in if (is_low_episode \<and> \<not> in_low) \<or> (\<not> is_low_episode \<and> \<not> in_high)
            then (i, ept, episode_values)
            else scan_run points low high is_low_episode (i + 1)
                   (if v < 54 then Very_low else if v > 250 then Very_high else ept)
                   (episode_values @ [points ! i]))
      else (i, ept, episode_values))"
  by pat_completeness auto
termination
  by (relation "measure (\<lambda>(points, low, high, is_low_episode, i, ept, vs). length points - i)")
     auto

declare scan_run.simps [simp del]

lemma scan_run_index_mono:
  "i \<le> fst (scan_run points low high is_low_episode i ept vs)"
proof (induction points low high is_low_episode i ept vs rule: scan_run.induct)
  case (1 points low high is_low_episode i ept vs)
  show ?case
  proof (cases "i < length points \<and>
      \<not> ((is_low_episode \<and> \<not> fst (points ! i) < low) \<or>
         (\<not> is_low_episode \<and> \<not> fst (points ! i) > high))")
    case True
    then have "Suc i \<le> fst (scan_run points low high is_low_episode i ept vs)"
      using "1.IH"[OF _ refl refl refl] by (subst scan_run.simps) (auto simp: Let_def)
    then show ?thesis by simp
  next
    case False
    then show ?thesis by (subst scan_run.simps) (auto simp: Let_def)
  qed
qed

lemma scan_run_advances:
  assumes "i < length points"
    and "if is_low_episode then fst (points ! i) < low else fst (points ! i) > high"
  shows "i < fst (scan_run points low high is_low_episode i ept vs)"
proof -
  have "scan_run points low high is_low_episode i ept vs =
        scan_run points low high is_low_episode (i + 1)
          (if fst (points ! i) < 54 then Very_low
           else if fst (points ! i) > 250 then Very_high else ept)
          (vs @ [points ! i])"
    using assms by (subst scan_run.simps) (auto simp: Let_def split: if_splits)
  then show ?thesis
    using scan_run_index_mono[of "i + 1" points low high is_low_episode] 
    by (metis Suc_eq_plus1 Suc_le_lessD)
qed

definition episode_start :: "int \<Rightarrow> int \<Rightarrow> int \<Rightarrow> (episode_type \<times> bool) option" where
  \<comment> \<open>lines 430-438: the initial \<^verbatim>\<open>(ep_type, is_low_episode)\<close>, or \<open>None\<close> where the
      loop takes \<^verbatim>\<open>continue\<close>\<close>
  "episode_start low high v =
     (if v < low then Some (if v < 54 then Very_low else Low, True)
      else if v > high then Some (if v > 250 then Very_high else High, False)
      else None)"

function find_episodes ::
  "point list \<Rightarrow> int \<Rightarrow> int \<Rightarrow> nat \<Rightarrow> found_episode list \<Rightarrow> found_episode list"
where
  \<comment> \<open>the outer \<^verbatim>\<open>while\<close>, lines 427-463, on \<^verbatim>\<open>(i, episodes)\<close>\<close>
  "find_episodes points low high i episodes =
     (if i < length points then
        (case episode_start low high (fst (points ! i)) of
           None \<Rightarrow> find_episodes points low high (i + 1) episodes
         | Some start \<Rightarrow>
             (let run = scan_run points low high (snd start) i (fst start) []
              in find_episodes points low high (fst run)
                   (episodes @
                      [\<lparr>fe_type = fst (snd run), fe_start_idx = i,
                        fe_end_idx = fst run - 1, fe_values = snd (snd run),
                        fe_is_low = snd start\<rparr>])))
      else episodes)"
  by pat_completeness auto
termination
proof (relation "measure (\<lambda>(points, low, high, i, episodes). length points - i)")
  show "wf (measure (\<lambda>(points, low, high, i, episodes). length points - i))"
    by simp
next
  fix points :: "point list" and low high :: int and i :: nat
    and episodes :: "found_episode list"
  assume "i < length points"
  then show "((points, low, high, i + 1, episodes), (points, low, high, i, episodes))
      \<in> measure (\<lambda>(points, low, high, i, episodes). length points - i)"
    by simp
next
  fix points :: "point list" and low high :: int and i :: nat
    and episodes :: "found_episode list" and start run
  assume i: "i < length points"
    and start: "episode_start low high (fst (points ! i)) = Some start"
    and run: "run = scan_run points low high (snd start) i (fst start) []"
  have "if snd start then fst (points ! i) < low else fst (points ! i) > high"
    using start by (auto simp: episode_start_def split: if_splits)
  then have "i < fst run"
    unfolding run using i by (rule scan_run_advances[rotated])
  then show "((points, low, high, fst run,
        episodes @ [\<lparr>fe_type = fst (snd run), fe_start_idx = i, fe_end_idx = fst run - 1,
                     fe_values = snd (snd run), fe_is_low = snd start\<rparr>]),
       (points, low, high, i, episodes))
      \<in> measure (\<lambda>(points, low, high, i, episodes). length points - i)"
    using i by simp
qed

declare find_episodes.simps [simp del]

datatype overcorrection = Rebound_high int | Overcorrect_low int

record episode_detail =
  ed_type :: episode_type
  ed_start :: string
  ed_end :: string
  ed_duration_minutes :: int
  ed_extreme_value :: int
  ed_extreme_time :: string
  ed_rate_to_extreme_per_5min :: "real option"
  ed_rate_from_extreme_per_5min :: "real option"
  ed_recovery_minutes :: "int option"
  ed_recovery_rate_per_5min :: "real option"
  ed_overcorrection :: "overcorrection option"
  ed_leadup_values :: "int list"

definition index_of :: "'a \<Rightarrow> 'a list \<Rightarrow> nat" where
  \<comment> \<open>\<^verbatim>\<open>xs.index(x)\<close> for an \<^verbatim>\<open>x\<close> that occurs in \<^verbatim>\<open>xs\<close>\<close>
  "index_of x xs = length (takeWhile (\<lambda>y. y \<noteq> x) xs)"

definition rate_per_5min :: "int \<Rightarrow> real \<Rightarrow> real option" where
  \<comment> \<open>\<^verbatim>\<open>round(v_diff / t_diff * 5, 1)\<close> under \<^verbatim>\<open>if t_diff > 0\<close>\<close>
  "rate_per_5min v_diff t_diff =
     (if t_diff > 0 then Some (py_round1 (real_of_int v_diff / t_diff * 5)) else None)"

definition analyze_episode ::
  "point list \<Rightarrow> int \<Rightarrow> int \<Rightarrow> found_episode \<Rightarrow> error + episode_detail" where
  \<comment> \<open>the body of the loop over \<^verbatim>\<open>episodes\<close>, lines 468-541; \<^verbatim>\<open>values[0]\<close> raises
      on an empty list\<close>
  "analyze_episode points low high ep =
     (let values = fe_values ep; start_idx = fe_start_idx ep; end_idx = fe_end_idx ep
      in if values = [] then Inl IndexError
         else
          (let start_time = snd (hd values); end_time = snd (last values);
               glucose_values = map fst values;
               extreme = (if fe_is_low ep then Min (set glucose_values)
                          else Max (set glucose_values));
               extreme_idx = index_of extreme glucose_values;
               extreme_time = snd (values ! extreme_idx);
               duration = max (py_int (minutes_between start_time end_time)) 5;
               leadup = drop (start_idx - 6) (take start_idx points);
               rate_to_extreme =
                 (if extreme_idx > 0
                  then rate_per_5min (extreme - fst (hd values))
                         (minutes_between start_time extreme_time)
                  else None);
               rate_from_extreme =
                 (if extreme_idx < length values - 1
                  then rate_per_5min (fst (last values) - extreme)
                         (minutes_between extreme_time end_time)
                  else None);
               recovery = take 6 (drop (end_idx + 1) points);
               recovery_minutes =
                 (if recovery = [] then None
                  else map_option (\<lambda>p. py_int (minutes_between end_time (snd p)))
                         (find (\<lambda>p. low \<le> fst p \<and> fst p \<le> high) recovery));
               recovery_rate =
                 (if recovery = [] then None
                  else rate_per_5min (fst (last recovery) - fst (last values))
                         (minutes_between end_time (snd (last recovery))));
               recovery_values = map fst recovery;
               overcorrection =
                 (if recovery = [] then None
                  else if fe_is_low ep \<and> Max (set recovery_values) > high
                  then Some (Rebound_high (Max (set recovery_values)))
                  else if \<not> fe_is_low ep \<and> Min (set recovery_values) < low
                  then Some (Overcorrect_low (Min (set recovery_values)))
                  else None)
           in Inr \<lparr>ed_type = fe_type ep,
                   ed_start = dt_iso start_time,
                   ed_end = dt_iso end_time,
                   ed_duration_minutes = duration,
                   ed_extreme_value = extreme,
                   ed_extreme_time = dt_iso extreme_time,
                   ed_rate_to_extreme_per_5min = rate_to_extreme,
                   ed_rate_from_extreme_per_5min = rate_from_extreme,
                   ed_recovery_minutes = recovery_minutes,
                   ed_recovery_rate_per_5min = recovery_rate,
                   ed_overcorrection = overcorrection,
                   ed_leadup_values = map fst leadup\<rparr>))"

fun analyze_all ::
  "point list \<Rightarrow> int \<Rightarrow> int \<Rightarrow> found_episode list \<Rightarrow> error + episode_detail list" where
  "analyze_all points low high [] = Inr []"
| "analyze_all points low high (ep # eps) =
     (case analyze_episode points low high ep of
        Inl e \<Rightarrow> Inl e
      | Inr d \<Rightarrow>
          (case analyze_all points low high eps of
             Inl e \<Rightarrow> Inl e
           | Inr ds \<Rightarrow> Inr (d # ds)))"

definition as_point :: "reading \<Rightarrow> point" where
  \<comment> \<open>\<^verbatim>\<open>(r.value, r.datetime)\<close>, line 422\<close>
  "as_point r = (r_value r, r_datetime r)"

record details_report =
  dr_readings_analyzed :: nat
  dr_episodes_analyzed :: nat
  dr_episodes :: "episode_detail list"

definition get_episode_details ::
  "runtime \<Rightarrow> int \<Rightarrow> int \<Rightarrow> int \<Rightarrow> ext_record list option \<Rightarrow> details_report report call"
where
  "get_episode_details rt minutes low high data =
     on_readings (fetch_or_parse rt minutes data)
       (\<lambda>readings.
          if readings = [] then Inr (No_data ''No readings available'')
          else
           (case sorted_by snd False (map as_point readings) of
              Inl e \<Rightarrow> Inl e
            | Inr points \<Rightarrow>
                (case analyze_all points low high (find_episodes points low high 0 []) of
                   Inl e \<Rightarrow> Inl e
                 | Inr detailed \<Rightarrow>
                     Inr (Report \<lparr>dr_readings_analyzed = length points,
                                  dr_episodes_analyzed = length detailed,
                                  dr_episodes = detailed\<rparr>))))"

section \<open>\<^verbatim>\<open>analyze_time_blocks\<close>\<close>

datatype block_name = Overnight | Morning | Afternoon | Evening

definition block_of_hour :: "nat \<Rightarrow> block_name" where
  \<comment> \<open>lines 591-598\<close>
  "block_of_hour h =
     (if 0 \<le> h \<and> h < 6 then Overnight
      else if 6 \<le> h \<and> h < 12 then Morning
      else if 12 \<le> h \<and> h < 18 then Afternoon
      else Evening)"

definition block_range :: "block_name \<Rightarrow> string" where
  "block_range b =
     (case b of Overnight \<Rightarrow> ''00:00-06:00'' | Morning \<Rightarrow> ''06:00-12:00''
      | Afternoon \<Rightarrow> ''12:00-18:00'' | Evening \<Rightarrow> ''18:00-24:00'')"

definition block_label :: "block_name \<Rightarrow> string" where
  "block_label b =
     (case b of Overnight \<Rightarrow> ''overnight'' | Morning \<Rightarrow> ''morning''
      | Afternoon \<Rightarrow> ''afternoon'' | Evening \<Rightarrow> ''evening'')"

definition block_readings :: "reading list \<Rightarrow> block_name \<Rightarrow> int list" where
  \<comment> \<open>\<^verbatim>\<open>blocks[name]["readings"]\<close> after the loop of lines 587-598\<close>
  "block_readings readings b =
     map r_value (filter (\<lambda>r. block_of_hour (dt_hour (r_datetime r)) = b) readings)"

record block_stats =
  bs_readings_count :: nat
  bs_average_mg_dl :: real
  bs_min_mg_dl :: int
  bs_max_mg_dl :: int
  bs_time_in_range_percent :: real
  bs_time_below_percent :: real
  bs_time_above_percent :: real
  bs_assessment :: string

datatype block_result = Block_no_data string nat | Block_stats string block_stats

definition assessment_of :: "real \<Rightarrow> string" where
  \<comment> \<open>lines 633-640\<close>
  "assessment_of tir =
     (if tir \<ge> 80 then ''excellent''
      else if tir \<ge> 70 then ''good''
      else if tir \<ge> 50 then ''needs attention''
      else ''problematic'')"

definition analyze_block :: "int \<Rightarrow> int \<Rightarrow> block_name \<Rightarrow> int list \<Rightarrow> block_result" where
  \<comment> \<open>lines 608-652 without the best/worst tracking\<close>
  "analyze_block low high b values =
     (if values = [] then Block_no_data (block_range b) 0
      else
       (let avg = real_of_int (sum_list values) / real (length values);
            in_range = count_if (\<lambda>v. low \<le> v \<and> v \<le> high) values;
            below = count_if (\<lambda>v. v < low) values;
            above = count_if (\<lambda>v. v > high) values;
            tir = percent in_range (length values)
        in Block_stats (block_range b)
             \<lparr>bs_readings_count = length values,
              bs_average_mg_dl = py_round1 avg,
              bs_min_mg_dl = Min (set values),
              bs_max_mg_dl = Max (set values),
              bs_time_in_range_percent = tir,
              bs_time_below_percent = percent below (length values),
              bs_time_above_percent = percent above (length values),
              bs_assessment = assessment_of tir\<rparr>))"

record tracking =
  best_block :: "block_name option"
  worst_block :: "block_name option"
  best_tir :: real
  worst_tir :: real

definition track_block :: "int \<Rightarrow> int \<Rightarrow> reading list \<Rightarrow> block_name \<Rightarrow> tracking \<Rightarrow> tracking" where
  \<comment> \<open>lines 610, 616 and 622-630: a block without readings is skipped\<close>
  "track_block low high readings b t =
     (let values = block_readings readings b
      in if values = [] then t
         else
          (let tir = percent (count_if (\<lambda>v. low \<le> v \<and> v \<le> high) values) (length values);
               t1 = (if tir > best_tir t then t\<lparr>best_tir := tir, best_block := Some b\<rparr>
                     else t)
           in if tir < worst_tir t1 then t1\<lparr>worst_tir := tir, worst_block := Some b\<rparr>
              else t1))"

record blocks_report =
  br_readings_analyzed :: nat
  br_blocks :: "(block_name \<times> block_result) list"
  br_best_block :: "block_name option"
  br_worst_block :: "block_name option"
  br_insight :: "string option"

definition time_blocks_of :: "runtime \<Rightarrow> int \<Rightarrow> int \<Rightarrow> reading list \<Rightarrow> blocks_report" where
  \<comment> \<open>lines 579-660; the dict \<^verbatim>\<open>blocks\<close> is iterated in insertion order\<close>
  "time_blocks_of rt low high readings =
     (let names = [Overnight, Morning, Afternoon, Evening];
          analyzed = map (\<lambda>b. (b, analyze_block low high b (block_readings readings b))) names;
          t = fold (track_block low high readings) names
                \<lparr>best_block = None, worst_block = None, best_tir = - 1, worst_tir = 101\<rparr>
      in \<lparr>br_readings_analyzed = length readings,
          br_blocks = analyzed,
          br_best_block = best_block t,
          br_worst_block = worst_block t,
          br_insight =
            (case (best_block t, worst_block t) of
               (Some b, Some w) \<Rightarrow>
                 Some (''Best control during '' @ block_label b @ '' ('' @
                       float_str rt (best_tir t) @ ''% TIR), worst during '' @
                       block_label w @ '' ('' @ float_str rt (worst_tir t) @ ''% TIR)'')
             | _ \<Rightarrow> None)\<rparr>)"

definition analyze_time_blocks ::
  "runtime \<Rightarrow> int \<Rightarrow> int \<Rightarrow> int \<Rightarrow> ext_record list option \<Rightarrow> blocks_report report call"
where
  "analyze_time_blocks rt minutes low high data =
     on_readings (fetch_or_parse rt minutes data)
       (\<lambda>readings.
          if readings = [] then Inr (No_data ''No readings available'')
          else Inr (Report (time_blocks_of rt low high readings)))"

section \<open>\<^verbatim>\<open>export_data\<close>\<close>

record export =
  ex_export_timestamp :: string
  ex_readings_count :: nat
  ex_period_minutes :: "int option"
  ex_oldest_reading :: "string option"
  ex_newest_reading :: "string option"
  ex_format :: string
  ex_readings :: "reading_out list"
  ex_csv :: "string option"

definition opt_str :: "string option \<Rightarrow> string" where
  \<comment> \<open>an f-string field holding a string or \<^verbatim>\<open>None\<close>\<close>
  "opt_str x = (case x of None \<Rightarrow> ''None'' | Some s \<Rightarrow> s)"

definition join :: "string \<Rightarrow> string list \<Rightarrow> string" where
  \<comment> \<open>\<^verbatim>\<open>sep.join(rows)\<close>\<close>
  "join sep rows = (case rows of [] \<Rightarrow> [] | r # rs \<Rightarrow> r @ concat (map (\<lambda>x. sep @ x) rs))"

definition csv_row :: "runtime \<Rightarrow> reading_out \<Rightarrow> string" where
  \<comment> \<open>line 776\<close>
  "csv_row rt r =
     o_timestamp r @ '','' @ int_str rt (o_glucose_mg_dl r) @ '','' @
     float_str rt (o_glucose_mmol_l r) @ '','' @ opt_str (o_trend r) @ '','' @
     opt_str (o_trend_arrow r)"

definition export_of ::
  "runtime \<Rightarrow> int \<Rightarrow> string \<Rightarrow> ext_record list option \<Rightarrow> reading list \<Rightarrow> export" where
  \<comment> \<open>lines 749-779; \<^verbatim>\<open>minutes\<close> is the variable as the opening block left it\<close>
  "export_of rt minutes format data readings =
     (let records = map render_reading readings
      in \<lparr>ex_export_timestamp = dt_iso (now rt),
          ex_readings_count = length records,
          ex_period_minutes = (if \<not> truthy data then Some minutes else None),
          ex_oldest_reading = (if records = [] then None else Some (o_timestamp (last records))),
          ex_newest_reading = (if records = [] then None else Some (o_timestamp (hd records))),
          ex_format = format,
          ex_readings = records,
          ex_csv =
            (if format = ''csv''
             then Some (join [CHR 0x0A]
                    (join '','' [''timestamp'', ''glucose_mg_dl'', ''glucose_mmol_l'',
                                 ''trend'', ''trend_arrow'']
                     # map (csv_row rt) records))
             else None)\<rparr>)"

definition export_data ::
  "runtime \<Rightarrow> int \<Rightarrow> string \<Rightarrow> ext_record list option \<Rightarrow> export report call" where
  "export_data rt minutes format data =
     on_readings (fetch_or_parse rt minutes data)
       (\<lambda>readings.
          if readings = [] then Inr (No_data ''No readings to export'')
          else Inr (Report (export_of rt (effective_minutes minutes data) format data readings)))"

section \<open>\<^verbatim>\<open>get_agp_report\<close>\<close>

definition percentile :: "int list \<Rightarrow> nat \<Rightarrow> int option" where
  \<comment> \<open>lines 811-817\<close>
  "percentile values p =
     (if values = [] then None
      else
       (let sorted_vals = sort values;
            idx = nat (py_int (real (length sorted_vals * p) / 100));
            idx = min idx (length sorted_vals - 1)
        in Some (sorted_vals ! idx)))"

record hourly =
  hp_hour :: nat
  hp_p5 :: "int option"
  hp_p25 :: "int option"
  hp_p50 :: "int option"
  hp_p75 :: "int option"
  hp_p95 :: "int option"
  hp_readings_count :: nat

definition hourly_values :: "reading list \<Rightarrow> nat \<Rightarrow> int list" where
  \<comment> \<open>\<^verbatim>\<open>hourly_values[h]\<close> after the loop of lines 807-809\<close>
  "hourly_values readings h =
     map r_value (filter (\<lambda>r. dt_hour (r_datetime r) = h) readings)"

definition hourly_entry :: "reading list \<Rightarrow> nat \<Rightarrow> hourly" where
  \<comment> \<open>lines 822-838\<close>
  "hourly_entry readings h =
     (let values = hourly_values readings h
      in if values \<noteq> []
         then \<lparr>hp_hour = h, hp_p5 = percentile values 5, hp_p25 = percentile values 25,
               hp_p50 = percentile values 50, hp_p75 = percentile values 75,
               hp_p95 = percentile values 95, hp_readings_count = length values\<rparr>
         else \<lparr>hp_hour = h, hp_p5 = None, hp_p25 = None, hp_p50 = None, hp_p75 = None,
               hp_p95 = None, hp_readings_count = 0\<rparr>)"

record glucose_metrics =
  gm_mean_mg_dl :: real
  gm_gmi_percent :: real
  gm_cv_percent :: real
  gm_std_dev :: real

record time_in_ranges =
  very_low_below_54 :: real
  low_54_70 :: real
  target_70_180 :: real
  high_180_250 :: real
  very_high_above_250 :: real

record clinical_targets =
  tir_target :: string
  tir_actual :: real
  tbr_target :: string
  tbr_actual :: real
  cv_target :: string
  cv_actual :: real

record agp_report =
  agp_report_type :: string
  agp_period_minutes :: int
  agp_readings_analyzed :: nat
  agp_glucose_metrics :: glucose_metrics
  agp_time_in_ranges :: time_in_ranges
  agp_clinical_targets :: clinical_targets
  agp_hourly_profile :: "hourly list"

definition agp_time_in_ranges_of :: "int list \<Rightarrow> time_in_ranges" where
  \<comment> \<open>lines 847-852 and 866-872\<close>
  "agp_time_in_ranges_of all_values =
     (let in_range = count_if (\<lambda>v. 70 \<le> v \<and> v \<le> 180) all_values;
          below_70 = count_if (\<lambda>v. v < 70) all_values;
          below_54 = count_if (\<lambda>v. v < 54) all_values;
          above_180 = count_if (\<lambda>v. v > 180) all_values;
          above_250 = count_if (\<lambda>v. v > 250) all_values;
          tot = length all_values
      in \<lparr>very_low_below_54 = percent below_54 tot,
          low_54_70 = percent (below_70 - below_54) tot,
          target_70_180 = percent in_range tot,
          high_180_250 = percent (above_180 - above_250) tot,
          very_high_above_250 = percent above_250 tot\<rparr>)"

definition agp_of :: "int \<Rightarrow> reading list \<Rightarrow> agp_report" where
  \<comment> \<open>lines 806-884\<close>
  "agp_of minutes readings =
     (let all_values = map r_value readings;
          avg = real_of_int (sum_list all_values) / real (length all_values);
          sd = (if length all_values > 1 then stdev all_values else 0);
          cv = (if avg > 0 then sd / avg * 100 else 0);
          gmi = 331 / 100 + 2392 / 100000 * avg;
          in_range = count_if (\<lambda>v. 70 \<le> v \<and> v \<le> 180) all_values;
          below_70 = count_if (\<lambda>v. v < 70) all_values;
          tot = length all_values
      in \<lparr>agp_report_type = ''ambulatory_glucose_profile'',
          agp_period_minutes = minutes,
          agp_readings_analyzed = tot,
          agp_glucose_metrics =
            \<lparr>gm_mean_mg_dl = py_round1 avg, gm_gmi_percent = py_round1 gmi,
             gm_cv_percent = py_round1 cv, gm_std_dev = py_round1 sd\<rparr>,
          agp_time_in_ranges = agp_time_in_ranges_of all_values,
          agp_clinical_targets =
            \<lparr>tir_target = ''>70%'', tir_actual = percent in_range tot,
             tbr_target = ''<4%'', tbr_actual = percent below_70 tot,
             cv_target = ''<36%'', cv_actual = py_round1 cv\<rparr>,
          agp_hourly_profile = map (hourly_entry readings) [0..<24]\<rparr>)"

definition get_agp_report ::
  "runtime \<Rightarrow> int \<Rightarrow> ext_record list option \<Rightarrow> agp_report report call" where
  "get_agp_report rt minutes data =
     on_readings (fetch_or_parse rt minutes data)
       (\<lambda>readings.
          if readings = [] then Inr (No_data ''No readings available'')
          else Inr (Report (agp_of (effective_minutes minutes data) readings)))"

section \<open>Notions used in the statements\<close>

definition erase_export_timestamp :: "export report call \<Rightarrow> export report call" where
  \<comment> \<open>an export with its \<^verbatim>\<open>export_timestamp\<close> blanked\<close>
  "erase_export_timestamp c =
     (fst c, map_sum id (map_report (\<lambda>x. x\<lparr>ex_export_timestamp := []\<rparr>)) (snd c))"





definition side :: "int \<Rightarrow> int \<Rightarrow> reading \<Rightarrow> bool option" where
  \<comment> \<open>the direction of a reading as \<^verbatim>\<open>detect_episodes\<close> computes it: \<open>None\<close> in range,
      \<open>Some True\<close> on the low side, \<open>Some False\<close> on the high side\<close>
  "side low high x = map_option is_low_type (classify low high (r_value x))"






definition episode_core :: "episode \<Rightarrow> episode_type \<times> datetime \<times> datetime \<times> int list" where
  \<comment> \<open>type, start, end and member values of an episode of \<^verbatim>\<open>detect_episodes\<close>\<close>
  "episode_core e = (ep_type e, ep_start e, ep_end e, ep_values e)"

definition found_core ::
  "found_episode \<Rightarrow> episode_type \<times> datetime \<times> datetime \<times> int list" where
  \<comment> \<open>the same of an episode of \<^verbatim>\<open>get_episode_details\<close>, read as lines 470-471 do:
      \<^verbatim>\<open>values[0][1]\<close>, \<^verbatim>\<open>values[-1][1]\<close>, \<^verbatim>\<open>[v for v, _ in values]\<close>\<close>
  "found_core f =
     (fe_type f, snd (hd (fe_values f)), snd (last (fe_values f)), map fst (fe_values f))"

definition episodes_from :: "int \<Rightarrow> int \<Rightarrow> reading list \<Rightarrow> episode option \<Rightarrow> episode list" where
  \<comment> \<open>what the loop of \<^verbatim>\<open>detect_episodes\<close> still emits from the readings \<open>xs\<close> when
      its current episode is \<open>cur\<close>\<close>
  "episodes_from low high xs cur = close_ongoing (detect_loop low high xs ([], cur))"

definition severity_fixed :: "episode \<Rightarrow> bool" where
  \<comment> \<open>an episode is severe exactly when one of its values is below 54 or above 250\<close>
  "severity_fixed e = (is_severe (ep_type e) = (\<exists>v \<in> set (ep_values e). v < 54 \<or> 250 < v))"

section \<open>Sample inputs\<close>

definition reading_at :: "int \<Rightarrow> int \<Rightarrow> nat \<Rightarrow> reading" where
  \<comment> \<open>an external reading of value \<open>v\<close> at instant \<open>t\<close>, in hour \<open>h\<close> of the day\<close>
  "reading_at v t h =
     \<lparr>r_value = v,
      r_datetime = \<lparr>dt_usec = t, dt_aware = True, dt_hour = h, dt_iso = []\<rparr>,
      r_mmol_l = None, r_trend_direction = None, r_trend_arrow = None\<rparr>"

definition midnight :: "nat \<Rightarrow> string \<Rightarrow> datetime" where
  \<comment> \<open>the aware datetime \<open>m\<close> minutes after 2024-01-01T00:00:00Z, for \<open>m < 60\<close>\<close>
  "midnight m text =
     \<lparr>dt_usec = 1704067200000000 + 60000000 * int m, dt_aware = True, dt_hour = 0,
      dt_iso = text\<rparr>"

definition sample_fromisoformat :: "string \<Rightarrow> datetime option" where
  \<comment> \<open>\<^verbatim>\<open>datetime.fromisoformat\<close> on three timestamps; every other string of the
      samples is one it rejects\<close>
  "sample_fromisoformat =
     map_of [(''2024-01-01T00:00:00+00:00'', midnight 0 ''2024-01-01T00:00:00+00:00''),
             (''2024-01-01T00:05:00+00:00'', midnight 5 ''2024-01-01T00:05:00+00:00''),
             (''2024-01-01T00:10:00+00:00'', midnight 10 ''2024-01-01T00:10:00+00:00'')]"

definition sample_rt :: runtime where
  \<comment> \<open>a client without readings, a clock, and stand-ins for \<^verbatim>\<open>str\<close>\<close>
  "sample_rt =
     \<lparr>client = (\<lambda>minutes max_count. Inr []),
      now = midnight 30 ''2024-01-01T00:30:00+00:00'',
      fromisoformat = sample_fromisoformat,
      float_str = (\<lambda>x. ''<float>''),
      int_str = (\<lambda>n. ''<int>'')\<rparr>"

definition ext :: "int \<Rightarrow> string \<Rightarrow> ext_record" where
  "ext v ts = \<lparr>glucose_mg_dl = Some v, timestamp = Some ts\<rparr>"


definition parsed_reading :: "int \<Rightarrow> datetime \<Rightarrow> reading" where
  \<comment> \<open>what \<^verbatim>\<open>ExternalReading\<close> builds\<close>
  "parsed_reading v dt =
     \<lparr>r_value = v, r_datetime = dt, r_mmol_l = None, r_trend_direction = None,
      r_trend_arrow = None\<rparr>"



definition five_readings :: "reading list" where
  \<comment> \<open>five minutes apart: two lows, one in range, a high, a low\<close>
  "five_readings =
     [reading_at 50 0 0, reading_at 45 300000000 0, reading_at 90 600000000 0,
      reading_at 200 900000000 0, reading_at 60 1200000000 0]"

definition one_fifty :: "ext_record list" where
  "one_fifty = [ext 50 ''2024-01-01T00:00:00Z'']"

section \<open>Percentiles of the AGP report\<close>










section \<open>Acquisition, the clock and empty input\<close>

lemma truthy_Some [simp]: "truthy (Some ds) = (ds \<noteq> [])"
  by (cases ds) (simp_all add: truthy_def)

lemma truthy_None [simp]: "truthy None = False"
  by (simp add: truthy_def)

lemma parse_record_client [simp]:
  "parse_record (rt\<lparr>client := c\<rparr>) d = parse_record rt d"
  by (simp add: parse_record_def ExternalReading_def split: option.splits)

lemma parse_external_data_client [simp]:
  "parse_external_data (rt\<lparr>client := c\<rparr>) ds = parse_external_data rt ds"
  by (induction ds) (simp_all split: sum.splits)

lemma parse_record_now [simp]:
  "parse_record (rt\<lparr>now := t\<rparr>) d = parse_record rt d"
  by (simp add: parse_record_def ExternalReading_def split: option.splits)

lemma parse_external_data_now [simp]:
  "parse_external_data (rt\<lparr>now := t\<rparr>) ds = parse_external_data rt ds"
  by (induction ds) (simp_all split: sum.splits)

lemma fetch_or_parse_supplied:
  "ds \<noteq> [] \<Longrightarrow> fetch_or_parse rt minutes (Some ds) = ([], parse_external_data rt ds)"
  by (simp add: fetch_or_parse_def)

lemma fetch_or_parse_now [simp]:
  "fetch_or_parse (rt\<lparr>now := t\<rparr>) minutes data = fetch_or_parse rt minutes data"
  by (simp add: fetch_or_parse_def)

lemma select_readings_supplied:
  "ds \<noteq> [] \<Longrightarrow> select_readings (rt\<lparr>client := c\<rparr>) minutes max_count (Some ds) =
     select_readings rt minutes max_count (Some ds) \<and>
   fst (select_readings rt minutes max_count (Some ds)) = []"
  by (simp add: select_readings_def)

lemma fst_on_readings [simp]: "fst (on_readings a body) = fst a"
  by (simp add: on_readings_def split: sum.splits)

lemma time_blocks_of_client [simp]:
  "time_blocks_of (rt\<lparr>client := c\<rparr>) low high readings = time_blocks_of rt low high readings"
  by (simp add: time_blocks_of_def Let_def split: option.splits)

lemma csv_row_client [simp]: "csv_row (rt\<lparr>client := c\<rparr>) = csv_row rt"
  by (rule ext) (simp add: csv_row_def)

lemma export_of_client [simp]:
  "export_of (rt\<lparr>client := c\<rparr>) minutes format data readings =
   export_of rt minutes format data readings"
  by (simp add: export_of_def Let_def)

text \<open>
  Claim C6, amended. For every tool that accepts a batch, when the batch supplied is not
  empty the acquisition client is not called and the whole result is the same whatever
  the client would have done.
\<close>

theorem supplied_batch_ignores_client:
  assumes "ds \<noteq> []"
  shows "get_glucose_readings (rt\<lparr>client := c\<rparr>) minutes max_count (Some ds) =
           get_glucose_readings rt minutes max_count (Some ds) \<and>
         fst (get_glucose_readings rt minutes max_count (Some ds)) = [] \<and>
         get_statistics (rt\<lparr>client := c\<rparr>) minutes low high (Some ds) =
           get_statistics rt minutes low high (Some ds) \<and>
         fst (get_statistics rt minutes low high (Some ds)) = [] \<and>
         detect_episodes (rt\<lparr>client := c\<rparr>) minutes low high (Some ds) =
           detect_episodes rt minutes low high (Some ds) \<and>
         fst (detect_episodes rt minutes low high (Some ds)) = [] \<and>
         get_episode_details (rt\<lparr>client := c\<rparr>) minutes low high (Some ds) =
           get_episode_details rt minutes low high (Some ds) \<and>
         fst (get_episode_details rt minutes low high (Some ds)) = [] \<and>
         analyze_time_blocks (rt\<lparr>client := c\<rparr>) minutes low high (Some ds) =
           analyze_time_blocks rt minutes low high (Some ds) \<and>
         fst (analyze_time_blocks rt minutes low high (Some ds)) = [] \<and>
         export_data (rt\<lparr>client := c\<rparr>) minutes format (Some ds) =
           export_data rt minutes format (Some ds) \<and>
         fst (export_data rt minutes format (Some ds)) = [] \<and>
         get_agp_report (rt\<lparr>client := c\<rparr>) minutes (Some ds) =
           get_agp_report rt minutes (Some ds) \<and>
         fst (get_agp_report rt minutes (Some ds)) = []"
  using assms select_readings_supplied[OF assms, where rt = rt and c = c and minutes = minutes and max_count = max_count]
  by (simp add: get_glucose_readings_def get_statistics_def detect_episodes_def
        get_episode_details_def analyze_time_blocks_def export_data_def get_agp_report_def
        fetch_or_parse_supplied cong: if_cong)


theorem supplied_batch_ignores_client_witness:
  "[ext 100 ''2024-01-01T00:00:00Z''] \<noteq> [] \<and>
   get_statistics (sample_rt\<lparr>client := (\<lambda>m n. Inl ValueError)\<rparr>) 60 70 180
       (Some [ext 100 ''2024-01-01T00:00:00Z'']) =
     get_statistics sample_rt 60 70 180 (Some [ext 100 ''2024-01-01T00:00:00Z'']) \<and>
   fst (get_statistics sample_rt 60 70 180 (Some [ext 100 ''2024-01-01T00:00:00Z''])) = []"
  using supplied_batch_ignores_client[where ds = "[ext 100 ''2024-01-01T00:00:00Z'']"
          and rt = sample_rt and c = "\<lambda>m n. Inl ValueError" and minutes = 60
          and low = 70 and high = 180]
  by simp

text \<open>
  Claim C6 as stated fails for a batch that is supplied but empty: \<^verbatim>\<open>if data:\<close> is
  false for it, the client is called, and the result depends on what it returns.
\<close>

theorem empty_batch_invokes_client:
  "fst (get_statistics sample_rt 60 70 180 (Some [])) = [(60, 288)] \<and>
   get_statistics (sample_rt\<lparr>client := (\<lambda>m n. Inr [reading_at 100 0 0])\<rparr>) 60 70 180 (Some [])
     \<noteq> get_statistics sample_rt 60 70 180 (Some [])"
  by (simp add: get_statistics_def fetch_or_parse_def on_readings_def sample_rt_def
        clamp_minutes_def)

lemma time_blocks_of_now [simp]:
  "time_blocks_of (rt\<lparr>now := t\<rparr>) low high readings = time_blocks_of rt low high readings"
  by (simp add: time_blocks_of_def Let_def split: option.splits)

lemma select_readings_now [simp]:
  "select_readings (rt\<lparr>now := t\<rparr>) minutes max_count data =
   select_readings rt minutes max_count data"
  by (simp add: select_readings_def)

lemma csv_row_now [simp]: "csv_row (rt\<lparr>now := t\<rparr>) = csv_row rt"
  by (rule ext) (simp add: csv_row_def)

lemma export_of_now:
  "(export_of (rt\<lparr>now := t\<rparr>) minutes format data readings)\<lparr>ex_export_timestamp := []\<rparr> =
   (export_of rt minutes format data readings)\<lparr>ex_export_timestamp := []\<rparr>"
  by (simp add: export_of_def Let_def)

text \<open>
  Claim C9, amended. No tool but \<^verbatim>\<open>export_data\<close> depends on the clock, and the result
  of \<^verbatim>\<open>export_data\<close> depends on it in its \<^verbatim>\<open>export_timestamp\<close> only: with the same
  arguments and the same client, two runs at different times agree on everything else.
\<close>

theorem rerun_independent_of_clock:
  "get_glucose_readings (rt\<lparr>now := t\<rparr>) minutes max_count data =
     get_glucose_readings rt minutes max_count data \<and>
   get_statistics (rt\<lparr>now := t\<rparr>) minutes low high data =
     get_statistics rt minutes low high data \<and>
   detect_episodes (rt\<lparr>now := t\<rparr>) minutes low high data =
     detect_episodes rt minutes low high data \<and>
   get_episode_details (rt\<lparr>now := t\<rparr>) minutes low high data =
     get_episode_details rt minutes low high data \<and>
   analyze_time_blocks (rt\<lparr>now := t\<rparr>) minutes low high data =
     analyze_time_blocks rt minutes low high data \<and>
   get_agp_report (rt\<lparr>now := t\<rparr>) minutes data = get_agp_report rt minutes data \<and>
   erase_export_timestamp (export_data (rt\<lparr>now := t\<rparr>) minutes format data) =
     erase_export_timestamp (export_data rt minutes format data)"
proof -
  have "erase_export_timestamp (export_data (rt\<lparr>now := t\<rparr>) minutes format data) =
        erase_export_timestamp (export_data rt minutes format data)"
    by (simp add: erase_export_timestamp_def export_data_def on_readings_def export_of_now
          split: sum.splits)
  then show ?thesis
    by (simp add: get_glucose_readings_def get_statistics_def detect_episodes_def
          get_episode_details_def analyze_time_blocks_def get_agp_report_def cong: if_cong)
qed

text \<open>
  Claim C9 as stated fails for \<^verbatim>\<open>export_data\<close>: the same batch exported at two
  different times gives two different results.
\<close>

theorem export_depends_on_clock:
  "export_data (sample_rt\<lparr>now := midnight 31 ''2024-01-01T00:31:00+00:00''\<rparr>) 60 ''json''
       (Some [ext 100 ''2024-01-01T00:00:00Z''])
     \<noteq> export_data sample_rt 60 ''json'' (Some [ext 100 ''2024-01-01T00:00:00Z''])"
  by (simp add: export_data_def fetch_or_parse_def on_readings_def sample_rt_def
        parse_record_def ExternalReading_def replace_Z_def sample_fromisoformat_def ext_def
        export_of_def midnight_def Let_def)



section \<open>Malformed batches\<close>












section \<open>The cap on a supplied batch\<close>











section \<open>Time-in-range percentages\<close>












































section \<open>The episodes of \<^verbatim>\<open>detect_episodes\<close>\<close>





























lemma five_readings_episodes: "length (segment_episodes 70 180 five_readings) = 3"
  by (simp add: segment_episodes_def five_readings_def reading_at_def detect_step_def
        classify_def is_low_type_def is_severe_def new_episode_def close_ongoing_def Let_def)


section \<open>The two segmentations\<close>

lemma detect_step_prefix:
  "detect_step low high (eps, cur) x =
     (eps @ fst (detect_step low high ([], cur) x), snd (detect_step low high ([], cur) x))"
  by (simp add: detect_step_def Let_def split: option.splits)

lemma detect_loop_prefix:
  "detect_loop low high xs (eps, cur) =
     (eps @ fst (detect_loop low high xs ([], cur)), snd (detect_loop low high xs ([], cur)))"
proof (induction xs arbitrary: eps cur)
  case Nil
  show ?case by simp
next
  case (Cons x xs)
  obtain a c where s: "detect_step low high ([], cur) x = (a, c)" by (cases "detect_step low high ([], cur) x")
  have "detect_loop low high (x # xs) (eps, cur) = detect_loop low high xs (eps @ a, c)"
    using detect_step_prefix[of low high eps cur x] s by simp
  also have "\<dots> = ((eps @ a) @ fst (detect_loop low high xs ([], c)),
                    snd (detect_loop low high xs ([], c)))"
    by (rule Cons.IH)
  also have "\<dots> = (eps @ fst (detect_loop low high xs (a, c)),
                    snd (detect_loop low high xs (a, c)))"
    using Cons.IH[of a c] by simp
  finally show ?case using s by simp
qed

lemma episodes_from_prefix:
  "close_ongoing (detect_loop low high xs (eps, cur)) = eps @ episodes_from low high xs cur"
  using detect_loop_prefix[of low high xs eps cur]
  by (simp add: episodes_from_def close_ongoing_def split: option.splits)

lemma episodes_from_Nil:
  "episodes_from low high [] None = []"
  "episodes_from low high [] (Some c) = [c\<lparr>ep_ongoing := True\<rparr>]"
  by (simp_all add: episodes_from_def close_ongoing_def)

lemma episodes_from_in_range:
  assumes "classify low high (r_value x) = None"
  shows "episodes_from low high (x # xs) None = episodes_from low high xs None"
    and "episodes_from low high (x # xs) (Some c) = c # episodes_from low high xs None"
  using assms episodes_from_prefix[of low high xs "[c]" None]
  by (simp_all add: episodes_from_def detect_step_def Let_def)

lemma episodes_from_open:
  assumes "classify low high (r_value x) = Some t"
  shows "episodes_from low high (x # xs) None =
           episodes_from low high xs (Some (new_episode t x))"
  using assms by (simp add: episodes_from_def detect_step_def Let_def)

lemma episodes_from_extend:
  assumes "classify low high (r_value x) = Some t" "is_low_type t = is_low_type (ep_type c)"
  shows "episodes_from low high (x # xs) (Some c) =
           episodes_from low high xs
             (Some (c\<lparr>ep_end := r_datetime x, ep_values := ep_values c @ [r_value x],
                      ep_type := (if is_severe t then t else ep_type c)\<rparr>))"
  using assms by (simp add: episodes_from_def detect_step_def Let_def)

lemma episodes_from_switch:
  assumes "classify low high (r_value x) = Some t" "is_low_type t \<noteq> is_low_type (ep_type c)"
  shows "episodes_from low high (x # xs) (Some c) =
           c # episodes_from low high xs (Some (new_episode t x))"
  using assms episodes_from_prefix[of low high xs "[c]" "Some (new_episode t x)"]
  by (simp add: episodes_from_def detect_step_def Let_def)

lemma episodes_from_leave:
  assumes "\<forall>t. classify low high (r_value x) = Some t \<longrightarrow>
             is_low_type t \<noteq> is_low_type (ep_type c)"
  shows "episodes_from low high (x # xs) (Some c) = c # episodes_from low high (x # xs) None"
proof (cases "classify low high (r_value x)")
  case None
  then show ?thesis by (simp add: episodes_from_in_range)
next
  case (Some t)
  then show ?thesis using assms by (simp add: episodes_from_switch episodes_from_open)
qed


lemma classify_low_side:
  "v < low \<Longrightarrow> classify low high v = Some (if v < 54 then Very_low else Low)"
  by (simp add: classify_def)

lemma classify_high_side:
  "54 \<le> low \<Longrightarrow> \<not> v < low \<Longrightarrow> v > high \<Longrightarrow>
   classify low high v = Some (if v > 250 then Very_high else High)"
  by (simp add: classify_def)

lemma classify_in_range:
  "54 \<le> low \<Longrightarrow> high \<le> 250 \<Longrightarrow> \<not> v < low \<Longrightarrow> \<not> v > high \<Longrightarrow>
   classify low high v = None"
  by (simp add: classify_def)

lemma episode_core_ongoing [simp]: "episode_core (c\<lparr>ep_ongoing := b\<rparr>) = episode_core c"
  by (simp add: episode_core_def)

lemma scan_run_stop:
  assumes "\<not> i < length points \<or>
           (is_low_episode \<and> \<not> fst (points ! i) < low) \<or>
           (\<not> is_low_episode \<and> \<not> fst (points ! i) > high)"
  shows "scan_run points low high is_low_episode i ept vs = (i, ept, vs)"
  using assms by (subst scan_run.simps) (auto simp: Let_def)

lemma scan_run_continue:
  assumes "i < length points"
    and "if is_low_episode then fst (points ! i) < low else fst (points ! i) > high"
  shows "scan_run points low high is_low_episode i ept vs =
         scan_run points low high is_low_episode (i + 1)
           (if fst (points ! i) < 54 then Very_low
            else if fst (points ! i) > 250 then Very_high else ept)
           (vs @ [points ! i])"
  using assms by (subst scan_run.simps) (auto simp: Let_def split: if_splits)

lemma scan_run_detect:
  "54 \<le> low \<Longrightarrow> low \<le> high + 1 \<Longrightarrow> high \<le> 250 \<Longrightarrow>
     pts = map as_point xs \<Longrightarrow> vals \<noteq> [] \<Longrightarrow>
     episode_core c = (t, snd (hd vals), snd (last vals), map fst vals) \<Longrightarrow>
     is_low_type t = il \<Longrightarrow>
     scan_run pts low high il j t vals = (i', t', vals') \<Longrightarrow>
     map episode_core (episodes_from low high (drop j xs) (Some c)) =
       (t', snd (hd vals'), snd (last vals'), map fst vals')
       # map episode_core (episodes_from low high (drop i' xs) None)"
proof (induction pts low high il j t vals arbitrary: c rule: scan_run.induct)
  case (1 points low high il j t vals)
  note ok = \<open>54 \<le> low\<close> \<open>low \<le> high + 1\<close> \<open>high \<le> 250\<close>
  note pts = \<open>points = map as_point xs\<close>
  note core = \<open>episode_core c = (t, snd (hd vals), snd (last vals), map fst vals)\<close>
  note side = \<open>is_low_type t = il\<close>
  note run = \<open>scan_run points low high il j t vals = (i', t', vals')\<close>
  have ctype: "ep_type c = t" using core by (simp add: episode_core_def)
  show ?case
  proof (cases "j < length xs")
    case False
    then have "scan_run points low high il j t vals = (j, t, vals)"
      using pts by (intro scan_run_stop) simp
    then have "i' = j" "t' = t" "vals' = vals" using run by simp_all
    then show ?thesis using False core by (simp add: episodes_from_Nil)
  next
    case j: True
    let ?x = "xs ! j"
    let ?v = "r_value ?x"
    have pj: "points ! j = (?v, r_datetime ?x)" using pts j by (simp add: as_point_def)
    have drop: "drop j xs = ?x # drop (Suc j) xs" using j by (simp add: Cons_nth_drop_Suc)
    show ?thesis
    proof (cases "if il then ?v < low else ?v > high")
      case False
      then have "scan_run points low high il j t vals = (j, t, vals)"
        using pj by (intro scan_run_stop) (auto split: if_splits)
      then have eq: "i' = j" "t' = t" "vals' = vals" using run by simp_all
      have "\<forall>tx. classify low high ?v = Some tx \<longrightarrow> is_low_type tx \<noteq> is_low_type (ep_type c)"
        using False side ctype ok
        by (auto simp: classify_def is_low_type_def split: if_splits)
      then have "episodes_from low high (drop j xs) (Some c) =
                 c # episodes_from low high (drop j xs) None"
        unfolding drop by (rule episodes_from_leave)
      then show ?thesis using eq core by simp
    next
      case True
      let ?t1 = "if ?v < 54 then Very_low else if ?v > 250 then Very_high else t"
      let ?tx = "if il then (if ?v < 54 then Very_low else Low)
                 else (if ?v > 250 then Very_high else High)"
      let ?c1 = "c\<lparr>ep_end := r_datetime ?x, ep_values := ep_values c @ [?v],
                   ep_type := (if is_severe ?tx then ?tx else ep_type c)\<rparr>"
      have cont: "scan_run points low high il j t vals =
                  scan_run points low high il (j + 1) ?t1 (vals @ [points ! j])"
        using True j pts pj scan_run_continue[of j points il low high t vals] by simp
      have cls: "classify low high ?v = Some ?tx"
        using True ok
        by (auto simp: classify_low_side classify_high_side split: if_splits)
      have same: "is_low_type ?tx = is_low_type (ep_type c)"
        using side ctype by (auto simp: is_low_type_def)
      have t1: "(if is_severe ?tx then ?tx else ep_type c) = ?t1"
        using True ctype side ok
        by (auto simp: is_severe_def is_low_type_def split: if_splits)
      have core1: "episode_core ?c1 =
          (?t1, snd (hd (vals @ [points ! j])), snd (last (vals @ [points ! j])),
           map fst (vals @ [points ! j]))"
        using core \<open>vals \<noteq> []\<close> pj t1 by (simp add: episode_core_def)
      have side1: "is_low_type ?t1 = il"
        using t1 same side ctype by (auto simp: is_low_type_def is_severe_def split: if_splits)
      have step: "episodes_from low high (drop j xs) (Some c) =
                  episodes_from low high (drop (Suc j) xs) (Some ?c1)"
        unfolding drop using episodes_from_extend[OF cls same] by simp
      have cond: "\<not> ((il \<and> \<not> fst (points ! j) < low) \<or> (\<not> il \<and> \<not> fst (points ! j) > high))"
        using True pj by (auto split: if_splits)
      have "map episode_core (episodes_from low high (drop (j + 1) xs) (Some ?c1)) =
              (t', snd (hd vals'), snd (last vals'), map fst vals')
              # map episode_core (episodes_from low high (drop i' xs) None)"
      proof (rule "1.IH"[OF _ refl refl refl cond ok pts])
        show "j < length points" using j pts by simp
      qed (use core1 side1 run cont pj in \<open>auto split: if_splits\<close>)
      then show ?thesis using step by simp
    qed
  qed
qed


lemma find_episodes_detect:
  "54 \<le> low \<Longrightarrow> low \<le> high + 1 \<Longrightarrow> high \<le> 250 \<Longrightarrow> pts = map as_point xs \<Longrightarrow>
   map found_core (find_episodes pts low high i acc) =
     map found_core acc @ map episode_core (episodes_from low high (drop i xs) None)"
proof (induction pts low high i acc rule: find_episodes.induct)
  case (1 points low high i episodes)
  note ok = \<open>54 \<le> low\<close> \<open>low \<le> high + 1\<close> \<open>high \<le> 250\<close>
  note pts = \<open>points = map as_point xs\<close>
  show ?case
  proof (cases "i < length xs")
    case False
    then have "find_episodes points low high i episodes = episodes"
      using pts by (subst find_episodes.simps) simp
    then show ?thesis using False by (simp add: episodes_from_Nil)
  next
    case i: True
    let ?x = "xs ! i"
    let ?v = "r_value ?x"
    have ilen: "i < length points" using i pts by simp
    have pi: "points ! i = (?v, r_datetime ?x)" using pts i by (simp add: as_point_def)
    have drop: "drop i xs = ?x # drop (Suc i) xs" using i by (simp add: Cons_nth_drop_Suc)
    show ?thesis
    proof (cases "episode_start low high (fst (points ! i))")
      case None
      then have range: "\<not> ?v < low" "\<not> ?v > high"
        using pi by (auto simp: episode_start_def split: if_splits)
      have "find_episodes points low high i episodes =
            find_episodes points low high (i + 1) episodes"
        using ilen None by (subst find_episodes.simps) simp
      moreover have "episodes_from low high (drop i xs) None =
                     episodes_from low high (drop (i + 1) xs) None"
        unfolding drop
        using episodes_from_in_range(1)[OF classify_in_range[OF ok(1,3) range]] by simp
      ultimately show ?thesis
        using "1.IH"(1)[OF ilen None ok pts] by simp
    next
      case (Some start)
      let ?t0 = "fst start"
      let ?il = "snd start"
      let ?run = "scan_run points low high ?il i ?t0 []"
      let ?fe = "\<lparr>fe_type = fst (snd ?run), fe_start_idx = i, fe_end_idx = fst ?run - 1,
                  fe_values = snd (snd ?run), fe_is_low = ?il\<rparr>"
      have start: "if ?il then ?v < low else \<not> ?v < low \<and> ?v > high"
        "?t0 = (if ?il then (if ?v < 54 then Very_low else Low)
                else (if ?v > 250 then Very_high else High))"
        using Some pi by (auto simp: episode_start_def split: if_splits)
      have cls: "classify low high ?v = Some ?t0"
        using start ok by (auto simp: classify_low_side classify_high_side split: if_splits)
      have side: "is_low_type ?t0 = ?il"
        using start(2) by (auto simp: is_low_type_def)
      have t0: "(if fst (points ! i) < 54 then Very_low
                 else if fst (points ! i) > 250 then Very_high else ?t0) = ?t0"
        using start ok pi by (auto split: if_splits)
      have cont: "?run = scan_run points low high ?il (i + 1) ?t0 ([] @ [points ! i])"
        using scan_run_continue[of i points ?il low high ?t0 "[]"] ilen start(1) pi t0
        by (auto split: if_splits)
      obtain i' t' vals' where run: "?run = (i', t', vals')" by (cases ?run)
      have core0: "episode_core (new_episode ?t0 ?x) =
                   (?t0, snd (hd ([] @ [points ! i])), snd (last ([] @ [points ! i])),
                    map fst ([] @ [points ! i]))"
        using pi by (simp add: episode_core_def new_episode_def)
      have "map episode_core (episodes_from low high (drop (i + 1) xs)
                                (Some (new_episode ?t0 ?x))) =
              (t', snd (hd vals'), snd (last vals'), map fst vals')
              # map episode_core (episodes_from low high (drop i' xs) None)"
        by (rule scan_run_detect[OF ok pts _ core0 side]) (use run cont in simp_all)
      then have detect: "map episode_core (episodes_from low high (drop i xs) None) =
              found_core ?fe # map episode_core (episodes_from low high (drop i' xs) None)"
        unfolding drop using episodes_from_open[OF cls] run by (simp add: found_core_def)
      have "find_episodes points low high i episodes =
            find_episodes points low high (fst ?run) (episodes @ [?fe])"
        using ilen Some by (subst find_episodes.simps) (simp add: Let_def)
      then show ?thesis
        using "1.IH"(2)[OF ilen Some refl ok pts] detect run by simp
    qed
  qed
qed


lemma insort_key_map:
  "insort_key k (f x) (map f ys) = map f (insort_key (\<lambda>y. k (f y)) x ys)"
  by (induction ys) simp_all

lemma sort_key_map: "sort_key k (map f xs) = map f (sort_key (\<lambda>y. k (f y)) xs)"
  by (induction xs) (simp_all add: insort_key_map)

lemma sorted_by_as_point:
  "sorted_by snd False (map as_point readings) =
     (case sorted_by r_datetime False readings of
        Inl e \<Rightarrow> Inl e | Inr xs \<Rightarrow> Inr (map as_point xs))"
proof -
  have "snd \<circ> as_point = r_datetime"
    by (rule ext) (simp add: as_point_def)
  moreover have "sort_key (\<lambda>x. dt_usec (snd x)) (map as_point readings) =
                 map as_point (sort_key (\<lambda>r. dt_usec (r_datetime r)) readings)"
    using sort_key_map[of "\<lambda>x. dt_usec (snd x)" as_point readings]
    by (simp add: as_point_def)
  ultimately show ?thesis
    by (simp add: sorted_by_def)
qed

lemma severity_new:
  assumes "54 \<le> low" "low \<le> high + 1" "high \<le> 250"
    and "classify low high (r_value x) = Some t"
  shows "severity_fixed (new_episode t x)"
  using assms
  by (auto simp: severity_fixed_def new_episode_def classify_def is_severe_def
      split: if_splits)

lemma severity_step:
  assumes ok: "54 \<le> low" "low \<le> high + 1" "high \<le> 250"
    and "\<forall>e \<in> set (fst st). severity_fixed e" "\<forall>c. snd st = Some c \<longrightarrow> severity_fixed c"
  shows "(\<forall>e \<in> set (fst (detect_step low high st x)). severity_fixed e) \<and>
         (\<forall>c. snd (detect_step low high st x) = Some c \<longrightarrow> severity_fixed c)"
proof (cases "classify low high (r_value x)")
  case None
  then show ?thesis
    using assms(4,5) by (auto simp: detect_step_def Let_def split: option.splits)
next
  case (Some t)
  have new: "severity_fixed (new_episode t x)" using severity_new[OF ok Some] .
  have sev: "is_severe t = (r_value x < 54 \<or> 250 < r_value x)"
    using Some ok by (auto simp: classify_def is_severe_def split: if_splits)
  show ?thesis
  proof (cases "snd st")
    case None
    then show ?thesis
      using assms(4) Some new by (simp add: detect_step_def Let_def)
  next
    case c: (Some c)
    have "severity_fixed c" using assms(5) c by simp
    then have ext: "severity_fixed
        (c\<lparr>ep_end := r_datetime x, ep_values := ep_values c @ [r_value x],
           ep_type := (if is_severe t then t else ep_type c)\<rparr>)"
      using sev by (auto simp: severity_fixed_def)
    show ?thesis
      using assms(4,5) Some c new ext by (auto simp: detect_step_def Let_def)
  qed
qed

lemma severity_loop:
  assumes ok: "54 \<le> low" "low \<le> high + 1" "high \<le> 250"
  shows "\<forall>e \<in> set (fst st). severity_fixed e \<Longrightarrow>
         \<forall>c. snd st = Some c \<longrightarrow> severity_fixed c \<Longrightarrow>
         (\<forall>e \<in> set (fst (detect_loop low high xs st)). severity_fixed e) \<and>
         (\<forall>c. snd (detect_loop low high xs st) = Some c \<longrightarrow> severity_fixed c)"
proof (induction xs arbitrary: st)
  case Nil
  then show ?case by simp
next
  case (Cons x xs)
  have "(\<forall>e \<in> set (fst (detect_step low high st x)). severity_fixed e) \<and>
        (\<forall>c. snd (detect_step low high st x) = Some c \<longrightarrow> severity_fixed c)"
    using severity_step[OF ok Cons.prems] .
  then show ?case using Cons.IH[of "detect_step low high st x"] by simp
qed

lemma severity_segment:
  assumes ok: "54 \<le> low" "low \<le> high + 1" "high \<le> 250"
  shows "\<forall>e \<in> set (segment_episodes low high xs). severity_fixed e"
proof -
  have "(\<forall>e \<in> set (fst (detect_loop low high xs ([], None))). severity_fixed e) \<and>
        (\<forall>c. snd (detect_loop low high xs ([], None)) = Some c \<longrightarrow> severity_fixed c)"
    by (rule severity_loop[OF ok]) simp_all
  then show ?thesis
    by (auto simp: segment_episodes_def close_ongoing_def severity_fixed_def
        split: option.splits)
qed

text \<open>
  Claim C3, amended. For thresholds with \<open>54 \<le> low\<close>, \<open>low \<le> high + 1\<close> and
  \<open>high \<le> 250\<close>, and for every batch of readings, \<^verbatim>\<open>detect_episodes\<close> and
  \<^verbatim>\<open>get_episode_details\<close> sort the batch alike (or both raise) and segment it into the
  same list of episodes, with identical type, start, end and member values; an
  episode is severe exactly when one of its values is below 54 or above 250.
\<close>

theorem segmentations_agree:
  assumes "54 \<le> low" "low \<le> high + 1" "high \<le> 250"
  shows "(\<forall>e. sorted_by r_datetime False readings = Inl e \<longrightarrow>
            sorted_by snd False (map as_point readings) = Inl e) \<and>
         (\<forall>xs. sorted_by r_datetime False readings = Inr xs \<longrightarrow>
            sorted_by snd False (map as_point readings) = Inr (map as_point xs) \<and>
            map found_core (find_episodes (map as_point xs) low high 0 []) =
              map episode_core (segment_episodes low high xs) \<and>
            (\<forall>e \<in> set (segment_episodes low high xs). severity_fixed e))"
proof -
  have "map found_core (find_episodes (map as_point xs) low high 0 []) =
        map episode_core (segment_episodes low high xs)" for xs
    using find_episodes_detect[OF assms refl, of xs 0 "[]"]
    by (simp add: episodes_from_def segment_episodes_def)
  then show ?thesis
    using severity_segment[OF assms] by (simp add: sorted_by_as_point)
qed


lemma fetch_one_fifty:
  "fetch_or_parse sample_rt 60 (Some one_fifty) =
     ([], Inr [parsed_reading 50 (midnight 0 ''2024-01-01T00:00:00+00:00'')])"
  by (simp add: fetch_or_parse_def one_fifty_def parse_record_def ExternalReading_def
        ext_def sample_rt_def replace_Z_def sample_fromisoformat_def parsed_reading_def)

lemma round_50: "py_round1 50 = 50"
  by (simp add: py_round1_def round_half_even_def)

lemma detect_one_fifty:
  "episodes_report_of 40 180 [parsed_reading 50 (midnight 0 ''2024-01-01T00:00:00+00:00'')] =
     \<lparr>er_readings_analyzed = 1,
      er_episodes =
        [\<lparr>eo_type = Very_low, eo_start = ''2024-01-01T00:00:00+00:00'',
          eo_end = ''2024-01-01T00:00:00+00:00'', eo_duration_minutes = 5,
          eo_extreme_value = 50, eo_mean_value = 50, eo_ongoing = True\<rparr>],
      er_summary =
        \<lparr>es_total_episodes = 1, es_low_episodes = 1, es_high_episodes = 0,
         es_total_low_minutes = 5, es_total_high_minutes = 0, es_severe_lows = 1,
         es_severe_highs = 0\<rparr>\<rparr>"
  by (simp add: episodes_report_of_def segment_episodes_def detect_step_def classify_def
        new_episode_def close_ongoing_def format_episode_def minutes_between_def py_int_def
        is_low_type_def is_high_type_def count_if_def parsed_reading_def midnight_def
        round_50 Let_def)

lemma find_one_fifty: "find_episodes [(50, dt)] 40 180 0 [] = []"
  by (simp add: find_episodes.simps[of _ _ _ 0] find_episodes.simps[of _ _ _ "Suc 0"]
        episode_start_def)

text \<open>
  Claim C3 as stated fails for \<open>low < 54\<close>: with \<open>low = 40\<close> a single reading of 50 is a
  \<open>very_low\<close> episode for \<^verbatim>\<open>detect_episodes\<close>, which tests \<open>value < 54\<close> first, and no
  episode for \<^verbatim>\<open>get_episode_details\<close>, which tests \<open>value < low\<close> first.
\<close>

theorem segmentations_differ:
  "detect_episodes sample_rt 60 40 180 (Some one_fifty) =
     ([], Inr (Report
       \<lparr>er_readings_analyzed = 1,
        er_episodes =
          [\<lparr>eo_type = Very_low, eo_start = ''2024-01-01T00:00:00+00:00'',
            eo_end = ''2024-01-01T00:00:00+00:00'', eo_duration_minutes = 5,
            eo_extreme_value = 50, eo_mean_value = 50, eo_ongoing = True\<rparr>],
        er_summary =
          \<lparr>es_total_episodes = 1, es_low_episodes = 1, es_high_episodes = 0,
           es_total_low_minutes = 5, es_total_high_minutes = 0, es_severe_lows = 1,
           es_severe_highs = 0\<rparr>\<rparr>)) \<and>
   get_episode_details sample_rt 60 40 180 (Some one_fifty) =
     ([], Inr (Report
       \<lparr>dr_readings_analyzed = 1, dr_episodes_analyzed = 0, dr_episodes = []\<rparr>))"
proof -
  have s1: "sorted_by r_datetime False
              [parsed_reading 50 (midnight 0 ''2024-01-01T00:00:00+00:00'')] =
            Inr [parsed_reading 50 (midnight 0 ''2024-01-01T00:00:00+00:00'')]"
    by (simp add: sorted_by_def comparable_def)
  have s2: "sorted_by snd False [(50, midnight 0 ''2024-01-01T00:00:00+00:00'')] =
            Inr [(50, midnight 0 ''2024-01-01T00:00:00+00:00'')]"
    by (simp add: sorted_by_def comparable_def)
  have a: "detect_episodes sample_rt 60 40 180 (Some one_fifty) =
     ([], Inr (Report (episodes_report_of 40 180
        [parsed_reading 50 (midnight 0 ''2024-01-01T00:00:00+00:00'')])))"
    by (simp add: detect_episodes_def fetch_one_fifty on_readings_def s1)
  have b: "get_episode_details sample_rt 60 40 180 (Some one_fifty) =
     ([], Inr (Report
       \<lparr>dr_readings_analyzed = 1, dr_episodes_analyzed = 0, dr_episodes = []\<rparr>))"
    by (simp add: get_episode_details_def fetch_one_fifty on_readings_def as_point_def
          parsed_reading_def s2 find_one_fifty)
  show ?thesis using a b by (simp add: detect_one_fifty)
qed

lemma five_readings_sorted_by:
  "sorted_by r_datetime False five_readings = Inr five_readings"
  by (simp add: sorted_by_def comparable_def five_readings_def reading_at_def)

theorem segmentations_agree_witness:
  "(54 :: int) \<le> 70 \<and> (70 :: int) \<le> 180 + 1 \<and> (180 :: int) \<le> 250 \<and>
   sorted_by r_datetime False five_readings = Inr five_readings \<and>
   map found_core (find_episodes (map as_point five_readings) 70 180 0 []) =
     map episode_core (segment_episodes 70 180 five_readings) \<and>
   length (segment_episodes 70 180 five_readings) = 3"
  using segmentations_agree[of 70 180 five_readings] five_readings_sorted_by
    five_readings_episodes
  by simp

end
